theory Spec2Isabelle
  imports Complex_Main "HOL-Library.Multiset"
begin

section \<open>JavaScript values\<close>

text \<open>
  The worker (\<^verbatim>\<open>src/index.js\<close>) computes with JSON-shaped JavaScript values: request
  bodies, the classifier's parsed answer, rows read back from the database. \<open>JNum\<close>
  holds the value of a double. \<open>JUndefined\<close> only arises from reading a property that is
  not there. An object lists each of its keys once, as a parsed object has them.
\<close>

datatype jsval =
    JUndefined
  | JNull
  | JBool bool
  | JNum real
  | JStr string
  | JArr "jsval list"
  | JObj "(string \<times> jsval) list"

text \<open>Exceptions that can travel through the handler.\<close>

datatype js_error =
    TypeError
  | SyntaxError
  | AIFailure
  | D1_TYPE_ERROR

text \<open>JavaScript's ToBoolean, as used by \<^verbatim>\<open>!x\<close> and \<^verbatim>\<open>x || y\<close>.\<close>

fun truthy :: "jsval \<Rightarrow> bool" where
  "truthy JUndefined = False"
| "truthy JNull = False"
| "truthy (JBool b) = b"
| "truthy (JNum n) = (n \<noteq> 0)"
| "truthy (JStr s) = (s \<noteq> [])"
| "truthy (JArr xs) = True"
| "truthy (JObj kvs) = True"

text \<open>
  Reading a property. The program only reads the names text, source, timestamp,
  response, theme, urgency, severity and sentiment, none of which a prototype of a JSON
  value supplies: the read gives the own property of an object and \<^verbatim>\<open>undefined\<close> on every
  other value. \<open>js_prop\<close> is the read where the value is known not to be \<^verbatim>\<open>null\<close> or
  \<^verbatim>\<open>undefined\<close>; \<open>js_get\<close> is the read \<^verbatim>\<open>v.k\<close> in general, which throws a TypeError on
  those two.
\<close>

fun js_prop :: "jsval \<Rightarrow> string \<Rightarrow> jsval" where
  "js_prop (JObj kvs) k = (case map_of kvs k of None \<Rightarrow> JUndefined | Some v \<Rightarrow> v)"
| "js_prop v k = JUndefined"

fun js_get :: "jsval \<Rightarrow> string \<Rightarrow> js_error + jsval" where
  "js_get JUndefined k = Inl TypeError"
| "js_get JNull k = Inl TypeError"
| "js_get v k = Inr (js_prop v k)"

section \<open>Numbers\<close>

text \<open>
  A JavaScript Number, and a REAL of SQLite, is an IEEE double. A finite double is
  modelled as the real number it stands for, and an arithmetic operation gives the double
  nearest to its exact result, a tie going to the even significand: \<open>to_double\<close>. A
  double has a significand of 53 bits, so in the binade \<open>[2\<^sup>e, 2\<^sup>e\<^sup>+\<^sup>1)\<close> the doubles are the
  multiples of \<open>2\<^sup>e\<^sup>-\<^sup>5\<^sup>2\<close>. Overflow to Infinity (from \<open>2\<^sup>1\<^sup>0\<^sup>2\<^sup>4\<close>) and the subnormal numbers (below
  \<open>2\<^sup>-\<^sup>1\<^sup>0\<^sup>2\<^sup>2\<close>) are left out: the numbers of this program are counts, means between 1 and 3,
  their products and hundredths.
\<close>

definition binade :: "real \<Rightarrow> int" where
  "binade x = \<lfloor>log 2 \<bar>x\<bar>\<rfloor>"

definition ulp :: "real \<Rightarrow> real" where
  "ulp x = 2 powr (real_of_int (binade x) - 52)"

text \<open>The nearest integer, the even one of two that are equally near.\<close>

definition half_even :: "real \<Rightarrow> int" where
  "half_even m =
     (if m - real_of_int \<lfloor>m\<rfloor> < 1 / 2 then \<lfloor>m\<rfloor>
      else if 1 / 2 < m - real_of_int \<lfloor>m\<rfloor> then \<lfloor>m\<rfloor> + 1
      else if even \<lfloor>m\<rfloor> then \<lfloor>m\<rfloor> else \<lfloor>m\<rfloor> + 1)"

definition to_double :: "real \<Rightarrow> real" where
  "to_double x = (if x = 0 then 0 else real_of_int (half_even (x / ulp x)) * ulp x)"

text \<open>The operators \<^verbatim>\<open>*\<close> and \<^verbatim>\<open>/\<close> on doubles.\<close>

definition fmul :: "real \<Rightarrow> real \<Rightarrow> real" where
  "fmul a b = to_double (a * b)"

definition fdiv :: "real \<Rightarrow> real \<Rightarrow> real" where
  "fdiv a b = to_double (a / b)"

text \<open>
  \<^verbatim>\<open>x.toFixed(2)\<close> works on the exact value of the double \<open>x\<close>: it takes the sign off, picks
  the integer \<open>n\<close> with \<open>n / 100\<close> nearest to \<open>\<bar>x\<bar>\<close> (the larger one on a tie) and prints it
  with two decimals; \<open>toFixed2\<close> is the number printed. (From \<open>10\<^sup>2\<^sup>1\<close> on toFixed prints the
  number itself, which as a double is an integer, so \<open>toFixed2\<close> gives it too.)
  \<^verbatim>\<open>Number(...)\<close> reads the text back as the nearest double.
\<close>

definition toFixed2 :: "real \<Rightarrow> real" where
  "toFixed2 x = sgn x * real_of_int \<lfloor>\<bar>x\<bar> * 100 + 1 / 2\<rfloor> / 100"

definition Number_toFixed2 :: "real \<Rightarrow> real" where
  "Number_toFixed2 x = to_double (toFixed2 x)"

section \<open>HTTP responses\<close>

datatype header_set = Cors | AllowOriginOnly

datatype body = NoBody | Text string | Json jsval

record response =
  status :: nat
  headers :: header_set
  body :: body

text \<open>The helper \<^verbatim>\<open>json(data, status = 200)\<close>; the body is the value handed to JSON.stringify.\<close>

definition json :: "jsval \<Rightarrow> nat \<Rightarrow> response" where
  "json data st = \<lparr>status = st, headers = Cors, body = Json data\<rparr>"

section \<open>The feedback table\<close>

text \<open>
  Values a D1 (SQLite) column holds. The table's schema is not part of the sources, so
  column affinity is not modelled: a value is stored as it was bound.
\<close>

datatype sqlval = SNull | SNum real | SText string | SBlob "real list"

record feedback_row =
  fb_text :: sqlval
  fb_source :: sqlval
  fb_timestamp :: sqlval
  fb_created_at :: sqlval
  fb_theme :: sqlval
  fb_urgency :: sqlval
  fb_severity :: sqlval
  fb_sentiment :: sqlval
  fb_escalated :: sqlval

text \<open>How D1 hands a column value back to JavaScript.\<close>

fun js_of_sql :: "sqlval \<Rightarrow> jsval" where
  "js_of_sql SNull = JNull"
| "js_of_sql (SNum n) = JNum n"
| "js_of_sql (SText s) = JStr s"
| "js_of_sql (SBlob bs) = JArr (map JNum bs)"

section \<open>GET /clusters\<close>

text \<open>
  The grouped query:
  \<^verbatim>\<open>CASE urgency WHEN 'High' THEN 3 WHEN 'Medium' THEN 2 ELSE 1 END\<close> and
  \<^verbatim>\<open>CASE severity WHEN 'Critical' THEN 3 WHEN 'Moderate' THEN 2 ELSE 1 END\<close>.
  A NULL, a number or a blob equals no text literal and takes the ELSE branch.
\<close>

definition urgency_score :: "sqlval \<Rightarrow> nat" where
  "urgency_score v = (if v = SText ''High'' then 3 else if v = SText ''Medium'' then 2 else 1)"

definition severity_score :: "sqlval \<Rightarrow> nat" where
  "severity_score v =
     (if v = SText ''Critical'' then 3 else if v = SText ''Moderate'' then 2 else 1)"

record theme_row =
  r_theme :: jsval
  r_coverage :: real
  r_avg_urgency :: real
  r_avg_severity :: real

text \<open>
  SQLite's order of values, in which \<^verbatim>\<open>GROUP BY\<close> hands out its groups: NULL first, then
  numbers by value, then texts byte by byte (a prefix before its extensions), then blobs
  likewise.
\<close>

fun bytes_le :: "string \<Rightarrow> string \<Rightarrow> bool" where
  "bytes_le [] t = True"
| "bytes_le (c # cs) [] = False"
| "bytes_le (c # cs) (d # ds) =
     ((of_char c :: nat) < of_char d \<or> (c = d \<and> bytes_le cs ds))"

fun reals_le :: "real list \<Rightarrow> real list \<Rightarrow> bool" where
  "reals_le [] t = True"
| "reals_le (c # cs) [] = False"
| "reals_le (c # cs) (d # ds) = (c < d \<or> (c = d \<and> reals_le cs ds))"

fun sql_le :: "sqlval \<Rightarrow> sqlval \<Rightarrow> bool" where
  "sql_le SNull y = True"
| "sql_le (SNum a) SNull = False"
| "sql_le (SNum a) (SNum b) = (a \<le> b)"
| "sql_le (SNum a) y = True"
| "sql_le (SText s) (SText t) = bytes_le s t"
| "sql_le (SText s) (SBlob b) = True"
| "sql_le (SText s) y = False"
| "sql_le (SBlob a) (SBlob b) = reals_le a b"
| "sql_le (SBlob a) y = False"

text \<open>The distinct values of a column, in that order.\<close>

fun insert_key :: "sqlval \<Rightarrow> sqlval list \<Rightarrow> sqlval list" where
  "insert_key k [] = [k]"
| "insert_key k (x # xs) = (if sql_le k x then k # x # xs else x # insert_key k xs)"

definition group_keys :: "sqlval list \<Rightarrow> sqlval list" where
  "group_keys vs = foldr (\<lambda>k ks. if k \<in> set ks then ks else insert_key k ks) vs []"

text \<open>
  \<^verbatim>\<open>SELECT theme, COUNT(*) as coverage, AVG(...) as avg_urgency, AVG(...) as avg_severity
  FROM feedback GROUP BY theme\<close>: one row for each distinct theme (NULL is a group of its
  own). \<^verbatim>\<open>COUNT(*)\<close> and the sum of the scores are integers and reach JavaScript and the
  division as doubles; \<^verbatim>\<open>AVG\<close> is the sum divided by the count, in doubles.
\<close>

definition group_row :: "feedback_row list \<Rightarrow> sqlval \<Rightarrow> theme_row" where
  "group_row table t =
     (let g = filter (\<lambda>x. fb_theme x = t) table;
          n = to_double (real (length g))
      in \<lparr>r_theme = js_of_sql t,
          r_coverage = n,
          r_avg_urgency = fdiv (to_double (real (\<Sum>x\<leftarrow>g. urgency_score (fb_urgency x)))) n,
          r_avg_severity = fdiv (to_double (real (\<Sum>x\<leftarrow>g. severity_score (fb_severity x)))) n\<rparr>)"

definition clusters_query :: "feedback_row list \<Rightarrow> theme_row list" where
  "clusters_query table = map (group_row table) (group_keys (map fb_theme table))"

record cluster =
  theme :: jsval
  coverage :: real
  avg_urgency :: real
  avg_severity :: real
  priority :: real
  insight :: string
  recommendation :: string

text \<open>The callback of \<^verbatim>\<open>results.map\<close>.\<close>

definition cluster_of :: "theme_row \<Rightarrow> cluster" where
  "cluster_of r =
     (let p = fmul (fmul (r_coverage r) (r_avg_urgency r)) (r_avg_severity r);
          (i, rec) =
            (if r_theme r = JStr ''Other'' then
               (''Large volume of uncategorized feedback suggests taxonomy gaps.'',
                ''Refine AI classification prompts or expand feedback categories.'')
             else if p > 20 then
               (''High-impact issue affecting multiple users.'',
                ''Prioritize investigation and remediation.'')
             else
               (''Recurring user feedback detected.'',
                ''Monitor and review in upcoming sprint.''))
      in \<lparr>theme = r_theme r,
          coverage = r_coverage r,
          avg_urgency = Number_toFixed2 (r_avg_urgency r),
          avg_severity = Number_toFixed2 (r_avg_severity r),
          priority = Number_toFixed2 p,
          insight = i,
          recommendation = rec\<rparr>)"

text \<open>
  \<^verbatim>\<open>Array.prototype.sort(cmp)\<close> is a stable sort: an element goes in front of the first one
  it does not have to follow (\<open>cmp x y \<le> 0\<close>), so equal elements keep their order.
\<close>

fun insert_by :: "('a \<Rightarrow> 'a \<Rightarrow> real) \<Rightarrow> 'a \<Rightarrow> 'a list \<Rightarrow> 'a list" where
  "insert_by cmp x [] = [x]"
| "insert_by cmp x (y # ys) = (if cmp x y \<le> 0 then x # y # ys else y # insert_by cmp x ys)"

definition sort_by :: "('a \<Rightarrow> 'a \<Rightarrow> real) \<Rightarrow> 'a list \<Rightarrow> 'a list" where
  "sort_by cmp xs = foldr (insert_by cmp) xs []"

text \<open>The comparator \<^verbatim>\<open>(a, b) => b.priority - a.priority\<close>.\<close>

definition by_priority :: "cluster \<Rightarrow> cluster \<Rightarrow> real" where
  "by_priority a b = priority b - priority a"

definition clusters_of :: "theme_row list \<Rightarrow> cluster list" where
  "clusters_of results = sort_by by_priority (map cluster_of results)"

definition cluster_json :: "cluster \<Rightarrow> jsval" where
  "cluster_json c =
     JObj [(''theme'', theme c),
           (''coverage'', JNum (coverage c)),
           (''avg_urgency'', JNum (avg_urgency c)),
           (''avg_severity'', JNum (avg_severity c)),
           (''priority'', JNum (priority c)),
           (''insight'', JStr (insight c)),
           (''recommendation'', JStr (recommendation c))]"

text \<open>\<^verbatim>\<open>clusters[0] || null\<close>: an object is truthy, a missing element is \<^verbatim>\<open>undefined\<close>.\<close>

definition top_problem :: "cluster list \<Rightarrow> cluster option" where
  "top_problem cs = (case cs of [] \<Rightarrow> None | c # rest \<Rightarrow> Some c)"

definition clusters_response :: "theme_row list \<Rightarrow> response" where
  "clusters_response results =
     (let clusters = clusters_of results in
      json (JObj [(''top_problem'',
                   (case top_problem clusters of None \<Rightarrow> JNull | Some c \<Rightarrow> cluster_json c)),
                  (''clusters'', JArr (map cluster_json clusters))]) 200)"

definition clusters_handler :: "feedback_row list \<Rightarrow> response" where
  "clusters_handler table = clusters_response (clusters_query table)"

section \<open>GET /stats\<close>

text \<open>
  \<^verbatim>\<open>SELECT COUNT(*) as total, SUM(CASE WHEN urgency='High' THEN 1 ELSE 0 END) as
  high_urgency, ... FROM feedback\<close>, read with \<^verbatim>\<open>.first()\<close>. An aggregate query without
  GROUP BY always yields one row. \<^verbatim>\<open>COUNT(*)\<close> over no rows is 0; \<^verbatim>\<open>SUM\<close> over no rows is
  NULL, which arrives in JavaScript as \<^verbatim>\<open>null\<close> (\<open>None\<close> below).
\<close>

record stats =
  total :: real
  high_urgency :: "real option"
  critical :: "real option"
  negative :: "real option"

definition sum_case :: "(feedback_row \<Rightarrow> bool) \<Rightarrow> feedback_row list \<Rightarrow> real option" where
  "sum_case p table =
     (if table = [] then None else Some (\<Sum>x\<leftarrow>table. if p x then 1 else 0))"

definition stats_query :: "feedback_row list \<Rightarrow> stats" where
  "stats_query table =
     \<lparr>total = real (length table),
      high_urgency = sum_case (\<lambda>x. fb_urgency x = SText ''High'') table,
      critical = sum_case (\<lambda>x. fb_severity x = SText ''Critical'') table,
      negative = sum_case (\<lambda>x. fb_sentiment x = SText ''Negative'') table\<rparr>"

text \<open>
  ToNumber on a number or \<^verbatim>\<open>null\<close>, as the comparison \<^verbatim>\<open>>\<close> applies it: \<^verbatim>\<open>null\<close> is 0. (The
  counts are whole numbers, and \<^verbatim>\<open>total / 2\<close> halves a double, which is exact.)
\<close>

definition num_of :: "real option \<Rightarrow> real" where
  "num_of v = (case v of None \<Rightarrow> 0 | Some n \<Rightarrow> n)"

definition nullable_json :: "real option \<Rightarrow> jsval" where
  "nullable_json v = (case v of None \<Rightarrow> JNull | Some n \<Rightarrow> JNum n)"

definition summary_of :: "stats \<Rightarrow> string" where
  "summary_of s =
     (if num_of (negative s) > total s / 2 then ''User sentiment is trending negative.''
      else if num_of (high_urgency s) > 0 \<or> num_of (critical s) > 0 then
        ''Urgent issues detected that may require prioritization.''
      else ''Feedback volume is low risk.'')"

text \<open>\<^verbatim>\<open>json({...stats, summary})\<close>.\<close>

definition stats_response :: "stats \<Rightarrow> response" where
  "stats_response s =
     json (JObj [(''total'', JNum (total s)),
                 (''high_urgency'', nullable_json (high_urgency s)),
                 (''critical'', nullable_json (critical s)),
                 (''negative'', nullable_json (negative s)),
                 (''summary'', JStr (summary_of s))]) 200"

definition stats_handler :: "feedback_row list \<Rightarrow> response" where
  "stats_handler table = stats_response (stats_query table)"

section \<open>The world around one request\<close>

text \<open>
  Built-ins of the JavaScript runtime whose inner working is not modelled: the text that
  the string conversion of a value other than a string gives (when it does not throw),
  \<^verbatim>\<open>JSON.parse\<close>, and the clock behind \<^verbatim>\<open>new Date().toISOString()\<close> (the text of its n-th
  reading). Every theorem holds for every such runtime.
\<close>

record runtime =
  ToString_text :: "jsval \<Rightarrow> string"
  JSON_parse :: "string \<Rightarrow> js_error + jsval"
  clock :: "nat \<Rightarrow> string"

text \<open>
  \<^verbatim>\<open>env.AI\<close>: absent (\<open>None\<close>), or a binding whose \<^verbatim>\<open>run\<close>, given the prompt, either rejects
  or resolves to some value.
\<close>

record env =
  AI :: "(string \<Rightarrow> js_error + jsval) option"

text \<open>
  What a request can change or observe: the feedback table behind \<^verbatim>\<open>env.DB\<close>, and two
  counters that record the calls made to the classification capability and the readings
  of the clock. The store is taken to be reachable: an insert of bindable values succeeds.
\<close>

record world =
  db :: "feedback_row list"
  ai_calls :: nat
  clock_reads :: nat

record request =
  req_method :: string
  req_pathname :: string
  req_json :: "js_error + jsval"

text \<open>
  \<open>req_json\<close> is the outcome of \<^verbatim>\<open>await request.json()\<close>: the parsed body, or the
  SyntaxError it throws when the body is not JSON.
\<close>

section \<open>The classifier adapter\<close>

definition fallback :: jsval where
  "fallback =
     JObj [(''theme'', JStr ''Other''),
           (''urgency'', JStr ''Medium''),
           (''severity'', JStr ''Moderate''),
           (''sentiment'', JStr ''Neutral'')]"

text \<open>
  String conversion, in a template literal and in \<^verbatim>\<open>String(v)\<close>. A string is taken as it
  is. An object goes through its \<^verbatim>\<open>toString\<close> and \<^verbatim>\<open>valueOf\<close>: a parsed object has no
  callable property of its own, so one with an own \<^verbatim>\<open>toString\<close> key shadows the inherited
  method, no primitive comes out, and the conversion throws a TypeError. An array joins
  the conversions of its elements and throws when one of them does. Nothing else throws;
  the text itself then comes from the runtime.
\<close>

fun ToString_throws :: "jsval \<Rightarrow> bool" where
  "ToString_throws (JObj kvs) = (''toString'' \<in> set (map fst kvs))"
| "ToString_throws (JArr xs) = list_ex ToString_throws xs"
| "ToString_throws v = False"

definition js_String :: "runtime \<Rightarrow> jsval \<Rightarrow> js_error + string" where
  "js_String rt v =
     (case v of
        JStr s \<Rightarrow> Inr s
      | _ \<Rightarrow> if ToString_throws v then Inl TypeError else Inr (ToString_text rt v))"

definition nl :: char where
  "nl = CHR 0x0A"

text \<open>The template literal \<^verbatim>\<open>prompt\<close>, around the converted text.\<close>

definition prompt :: "string \<Rightarrow> string" where
  \<open>prompt t =
     [nl] @ ''Classify the following product feedback.'' @ [nl, nl] @
     ''"'' @ t @ ''"'' @ [nl, nl] @
     ''Return ONLY valid JSON:'' @ [nl] @
     ''{'' @ [nl] @
     ''  "theme": "Authentication | Performance | UI/UX | Documentation | Bug | Feature Request | Integration | Other",'' @ [nl] @
     ''  "urgency": "Low | Medium | High",'' @ [nl] @
     ''  "severity": "Minor | Moderate | Critical",'' @ [nl] @
     ''  "sentiment": "Positive | Neutral | Negative"'' @ [nl] @
     ''}'' @ [nl]\<close>

text \<open>
  \<^verbatim>\<open>s.replace(/pat/g, "")\<close> for a literal, non-empty pattern: every occurrence, found
  from the left and not overlapping, is dropped.
\<close>

fun remove_all :: "string \<Rightarrow> string \<Rightarrow> string" where
  "remove_all pat [] = []"
| "remove_all pat (c # cs) =
     (if pat \<noteq> [] \<and> take (length pat) (c # cs) = pat
      then remove_all pat (drop (length pat) (c # cs))
      else c # remove_all pat cs)"

definition fence :: string where
  "fence = [CHR 0x60, CHR 0x60, CHR 0x60]"

text \<open>
  \<^verbatim>\<open>trim()\<close> strips white space and line terminators from both ends. A string is its
  UTF-8 bytes here, so besides tab, line feed, vertical tab, form feed, carriage return
  and blank there are the byte sequences of U+00A0, U+1680, U+2000 to U+200A, U+2028,
  U+2029, U+202F, U+205F, U+3000 and U+FEFF.
\<close>

definition white_space :: "string list" where
  "white_space =
     map (\<lambda>c. [c]) [CHR 0x09, CHR 0x0A, CHR 0x0B, CHR 0x0C, CHR 0x0D, CHR 0x20] @
     [[CHR 0xC2, CHR 0xA0], [CHR 0xE1, CHR 0x9A, CHR 0x80]] @
     map (\<lambda>c. [CHR 0xE2, CHR 0x80, c])
       [CHR 0x80, CHR 0x81, CHR 0x82, CHR 0x83, CHR 0x84, CHR 0x85, CHR 0x86, CHR 0x87,
        CHR 0x88, CHR 0x89, CHR 0x8A, CHR 0xA8, CHR 0xA9, CHR 0xAF] @
     [[CHR 0xE2, CHR 0x81, CHR 0x9F], [CHR 0xE3, CHR 0x80, CHR 0x80],
      [CHR 0xEF, CHR 0xBB, CHR 0xBF]]"

text \<open>Dropping, from the front, every leading occurrence of one of the patterns.\<close>

function strip_leading :: "string list \<Rightarrow> string \<Rightarrow> string" where
  "strip_leading pats s =
     (case find (\<lambda>p. p \<noteq> [] \<and> take (length p) s = p) pats of
        None \<Rightarrow> s
      | Some p \<Rightarrow> strip_leading pats (drop (length p) s))"
  by pat_completeness auto
termination
proof (relation "measure (\<lambda>(pats, s). length s)")
  show "wf (measure (\<lambda>(pats, s). length s))" by simp
next
  fix pats :: "string list" and s p :: string
  assume "find (\<lambda>p. p \<noteq> [] \<and> take (length p) s = p) pats = Some p"
  then have p: "p \<noteq> []" and t: "take (length p) s = p"
    by (auto simp: find_Some_iff)
  from p have "0 < length p"
    by simp
  moreover have "length p \<le> length s"
    using arg_cong [OF t, of length] by simp
  ultimately show "((pats, drop (length p) s), (pats, s)) \<in> measure (\<lambda>(pats, s). length s)"
    by (cases p) simp_all
qed

definition trim :: "string \<Rightarrow> string" where
  "trim s = rev (strip_leading (map rev white_space) (rev (strip_leading white_space s)))"

text \<open>
  \<^verbatim>\<open>String(ai.response || "").replace(/```json/g, "").replace(/```/g, "").trim()\<close>
\<close>

definition cleaned :: "runtime \<Rightarrow> jsval \<Rightarrow> js_error + string" where
  "cleaned rt ai =
     (case js_get ai ''response'' of
        Inl e \<Rightarrow> Inl e
      | Inr r \<Rightarrow>
          (case js_String rt (if truthy r then r else JStr []) of
             Inl e \<Rightarrow> Inl e
           | Inr s \<Rightarrow> Inr (trim (remove_all fence (remove_all (fence @ ''json'') s)))))"

text \<open>The body of the \<^verbatim>\<open>try\<close> block: call, clean, parse.\<close>

definition tag_attempt :: "runtime \<Rightarrow> (string \<Rightarrow> js_error + jsval) \<Rightarrow> string \<Rightarrow> js_error + jsval" where
  "tag_attempt rt run p =
     (case run p of
        Inl e \<Rightarrow> Inl e
      | Inr ai \<Rightarrow> (case cleaned rt ai of Inl e \<Rightarrow> Inl e | Inr c \<Rightarrow> JSON_parse rt c))"

text \<open>
  \<^verbatim>\<open>tagWithAI(text)\<close>. The prompt is put together before the \<^verbatim>\<open>try\<close> block, so a text
  whose string conversion throws makes the function throw; \<^verbatim>\<open>catch\<close> turns every
  exception of the block into the fallback.
\<close>

definition tagWithAI :: "runtime \<Rightarrow> env \<Rightarrow> jsval \<Rightarrow> world \<Rightarrow> (js_error + jsval) \<times> world" where
  "tagWithAI rt ev text w =
     (case AI ev of
        None \<Rightarrow> (Inr fallback, w)
      | Some run \<Rightarrow>
          (case js_String rt text of
             Inl e \<Rightarrow> (Inl e, w)
           | Inr t \<Rightarrow>
               (case tag_attempt rt run (prompt t) of
                  Inl e \<Rightarrow> (Inr fallback, w\<lparr>ai_calls := ai_calls w + 1\<rparr>)
                | Inr tags \<Rightarrow> (Inr tags, w\<lparr>ai_calls := ai_calls w + 1\<rparr>))))"


section \<open>Storing a classified record\<close>

text \<open>
  \<^verbatim>\<open>.bind(...)\<close> of the D1 binding checks each value: a number or a string is taken as it
  is, a boolean becomes 1 or 0, \<^verbatim>\<open>null\<close> becomes NULL, an array of numbers from 0 up to 256
  becomes a blob, and anything else (\<^verbatim>\<open>undefined\<close>, another object) is refused with a
  D1_TYPE_ERROR.
\<close>

fun is_byte :: "jsval \<Rightarrow> bool" where
  "is_byte (JNum n) = (0 \<le> n \<and> n < 256)"
| "is_byte v = False"

fun num_val :: "jsval \<Rightarrow> real" where
  "num_val (JNum n) = n"
| "num_val v = 0"

fun d1_bind :: "jsval \<Rightarrow> js_error + sqlval" where
  "d1_bind JUndefined = Inl D1_TYPE_ERROR"
| "d1_bind JNull = Inr SNull"
| "d1_bind (JBool b) = Inr (SNum (if b then 1 else 0))"
| "d1_bind (JNum n) = Inr (SNum n)"
| "d1_bind (JStr s) = Inr (SText s)"
| "d1_bind (JArr xs) =
     (if list_all is_byte xs then Inr (SBlob (map num_val xs)) else Inl D1_TYPE_ERROR)"
| "d1_bind (JObj kvs) = Inl D1_TYPE_ERROR"

fun bind_all :: "jsval list \<Rightarrow> js_error + sqlval list" where
  "bind_all [] = Inr []"
| "bind_all (v # vs) =
     (case d1_bind v of
        Inl e \<Rightarrow> Inl e
      | Inr x \<Rightarrow> (case bind_all vs of Inl e \<Rightarrow> Inl e | Inr xs \<Rightarrow> Inr (x # xs)))"

text \<open>\<^verbatim>\<open>new Date().toISOString()\<close>.\<close>

definition read_clock :: "runtime \<Rightarrow> world \<Rightarrow> jsval \<times> world" where
  "read_clock rt w = (JStr (clock rt (clock_reads w)), w\<lparr>clock_reads := clock_reads w + 1\<rparr>)"

text \<open>
  The four arguments \<^verbatim>\<open>tags.theme, tags.urgency, tags.severity, tags.sentiment\<close>; the first
  read throws when \<^verbatim>\<open>tags\<close> is \<^verbatim>\<open>null\<close>.
\<close>

definition tag_args :: "jsval \<Rightarrow> js_error + jsval list" where
  "tag_args tags =
     (case js_get tags ''theme'' of
        Inl e \<Rightarrow> Inl e
      | Inr th \<Rightarrow>
          Inr [th, js_prop tags ''urgency'', js_prop tags ''severity'', js_prop tags ''sentiment''])"

text \<open>
  \<^verbatim>\<open>INSERT INTO feedback (text, source, timestamp, created_at, theme, urgency, severity,
  sentiment, escalated) VALUES (?, ?, ?, ?, ?, ?, ?, ?, 0)\<close> with the first four values
  already evaluated. Both the ingestion handler and the seed loop run this statement.
  (\<open>bind_all\<close> keeps the number of values, so the list it returns has eight.)
\<close>

definition insert_feedback ::
    "jsval \<Rightarrow> jsval \<Rightarrow> jsval \<Rightarrow> jsval \<Rightarrow> jsval \<Rightarrow> world \<Rightarrow> (js_error + unit) \<times> world" where
  "insert_feedback text source timestamp created_at tags w =
     (case tag_args tags of
        Inl e \<Rightarrow> (Inl e, w)
      | Inr targs \<Rightarrow>
          (case bind_all ([text, source, timestamp, created_at] @ targs) of
             Inr [a, b, c, d, th, u, sv, se] \<Rightarrow>
               (Inr (),
                w\<lparr>db := db w @
                   [\<lparr>fb_text = a, fb_source = b, fb_timestamp = c, fb_created_at = d,
                     fb_theme = th, fb_urgency = u, fb_severity = sv, fb_sentiment = se,
                     fb_escalated = SNum 0\<rparr>]\<rparr>)
           | Inr other \<Rightarrow> (Inl D1_TYPE_ERROR, w)
           | Inl e \<Rightarrow> (Inl e, w)))"


section \<open>POST /feedback\<close>

definition feedback_handler ::
    "runtime \<Rightarrow> env \<Rightarrow> request \<Rightarrow> world \<Rightarrow> (js_error + response) \<times> world" where
  "feedback_handler rt ev req w =
     (case req_json req of
        Inl e \<Rightarrow> (Inl e, w)
      | Inr parsed \<Rightarrow>
          (let b = (if truthy parsed then parsed else JObj []);
               text = js_prop b ''text'';
               source = js_prop b ''source'';
               timestamp = js_prop b ''timestamp''
           in if \<not> truthy text \<or> \<not> truthy source \<or> \<not> truthy timestamp then
                (Inr (json (JObj [(''error'', JStr ''text, source, timestamp required'')]) 400), w)
              else
                (case tagWithAI rt ev text w of
                   (Inl e, w1) \<Rightarrow> (Inl e, w1)
                 | (Inr tags, w1) \<Rightarrow>
                     (case read_clock rt w1 of
                        (created_at, w2) \<Rightarrow>
                          (case insert_feedback text source timestamp created_at tags w2 of
                             (Inl e, w3) \<Rightarrow> (Inl e, w3)
                           | (Inr u, w3) \<Rightarrow>
                               (Inr (json (JObj [(''status'', JStr ''stored''),
                                                 (''tags'', tags)]) 200), w3))))))"

section \<open>GET /seed\<close>

definition samples :: "(string \<times> string) list" where
  "samples =
     [(''Login fails for enterprise users'', ''GitHub''),
      (''SSO integration breaks randomly'', ''Support''),
      (''Dashboard takes more than 10 seconds to load'', ''Discord''),
      (''API latency is very high during peak hours'', ''GitHub''),
      (''Documentation is outdated for v2 APIs'', ''Email''),
      (''Navigation is confusing in settings screen'', ''Twitter''),
      (''Need export to CSV feature'', ''Support''),
      (''Bug in report generation'', ''Support'')]"

text \<open>The \<^verbatim>\<open>for (const s of samples)\<close> loop: an exception ends it, and what was stored stays.\<close>

fun seed_loop ::
    "runtime \<Rightarrow> env \<Rightarrow> (string \<times> string) list \<Rightarrow> world \<Rightarrow> (js_error + unit) \<times> world" where
  "seed_loop rt ev [] w = (Inr (), w)"
| "seed_loop rt ev (s # rest) w =
     (case tagWithAI rt ev (JStr (fst s)) w of
        (Inl e, w1) \<Rightarrow> (Inl e, w1)
      | (Inr tags, w1) \<Rightarrow>
          (case read_clock rt w1 of
             (ts, w2) \<Rightarrow>
               (case insert_feedback (JStr (fst s)) (JStr (snd s)) ts ts tags w2 of
                  (Inl e, w3) \<Rightarrow> (Inl e, w3)
                | (Inr u, w3) \<Rightarrow> seed_loop rt ev rest w3)))"

definition seed_handler :: "runtime \<Rightarrow> env \<Rightarrow> world \<Rightarrow> (js_error + response) \<times> world" where
  "seed_handler rt ev w =
     (case seed_loop rt ev samples w of
        (Inl e, w1) \<Rightarrow> (Inl e, w1)
      | (Inr u, w1) \<Rightarrow>
          (Inr (json (JObj [(''status'', JStr ''seeded''),
                            (''count'', JNum (real (length samples)))]) 200), w1))"

section \<open>The router\<close>

definition fetch :: "runtime \<Rightarrow> env \<Rightarrow> request \<Rightarrow> world \<Rightarrow> (js_error + response) \<times> world" where
  "fetch rt ev req w =
     (if req_method req = ''OPTIONS'' then
        (Inr \<lparr>status = 200, headers = Cors, body = NoBody\<rparr>, w)
      else if req_pathname req = ''/'' \<and> req_method req = ''GET'' then
        (Inr \<lparr>status = 200, headers = AllowOriginOnly,
              body = Text ''Product Signal Engine running''\<rparr>, w)
      else if req_pathname req = ''/feedback'' \<and> req_method req = ''POST'' then
        feedback_handler rt ev req w
      else if req_pathname req = ''/stats'' \<and> req_method req = ''GET'' then
        (Inr (stats_handler (db w)), w)
      else if req_pathname req = ''/clusters'' \<and> req_method req = ''GET'' then
        (Inr (clusters_handler (db w)), w)
      else if req_pathname req = ''/seed'' \<and> req_method req = ''GET'' then
        seed_handler rt ev w
      else (Inr \<lparr>status = 404, headers = Cors, body = Text ''Not found''\<rparr>, w))"

section \<open>Sample data\<close>

text \<open>Concrete rows and tables on which the theorems below are instantiated.\<close>

definition sample_row :: "string \<Rightarrow> string \<Rightarrow> string \<Rightarrow> string \<Rightarrow> feedback_row" where
  "sample_row th u sv se =
     \<lparr>fb_text = SText ''Login fails'', fb_source = SText ''GitHub'',
      fb_timestamp = SText ''2026-01-01T00:00:00.000Z'',
      fb_created_at = SText ''2026-01-01T00:00:01.000Z'',
      fb_theme = SText th, fb_urgency = SText u, fb_severity = SText sv,
      fb_sentiment = SText se, fb_escalated = SNum 0\<rparr>"

definition sample_table :: "feedback_row list" where
  "sample_table =
     [sample_row ''Bug'' ''High'' ''Critical'' ''Negative'',
      sample_row ''Other'' ''Low'' ''Moderate'' ''Neutral'',
      sample_row ''Bug'' ''Medium'' ''Minor'' ''Neutral'']"

definition other_row :: theme_row where
  "other_row =
     \<lparr>r_theme = JStr ''Other'', r_coverage = 3, r_avg_urgency = 3, r_avg_severity = 3\<rparr>"

definition busy_row :: theme_row where
  "busy_row =
     \<lparr>r_theme = JStr ''Performance'', r_coverage = 6, r_avg_urgency = 2, r_avg_severity = 2\<rparr>"

definition quiet_row :: theme_row where
  "quiet_row =
     \<lparr>r_theme = JStr ''Bug'', r_coverage = 1, r_avg_urgency = 3, r_avg_severity = 3\<rparr>"

text \<open>
  A classifier answer that parses, with a null theme, and the value \<^verbatim>\<open>JSON.parse\<close> gives for
  it.
\<close>

definition reply_null_theme :: string where
  \<open>reply_null_theme =
     ''{"theme":null,"urgency":"High","severity":"Critical","sentiment":"Negative"}''\<close>

definition parsed_null_theme :: jsval where
  "parsed_null_theme =
     JObj [(''theme'', JNull),
           (''urgency'', JStr ''High''),
           (''severity'', JStr ''Critical''),
           (''sentiment'', JStr ''Negative'')]"

text \<open>
  A runtime for the examples. Its \<^verbatim>\<open>JSON.parse\<close> is given at the strings the examples parse:
  the answer above, and texts that are not JSON. The examples convert no value to a text
  other than a string, and the clock's text does not matter to them.
\<close>

definition example_runtime :: runtime where
  "example_runtime =
     \<lparr>ToString_text = (\<lambda>v. ''[object Object]''),
      JSON_parse = (\<lambda>s. if s = reply_null_theme then Inr parsed_null_theme else Inl SyntaxError),
      clock = (\<lambda>n. ''2026-01-01T00:00:00.000Z'')\<rparr>"

text \<open>
  Four classification capabilities: absent; rejecting every call; answering in prose;
  answering with the JSON above inside a code fence.
\<close>

definition env_unavailable :: env where
  "env_unavailable = \<lparr>AI = None\<rparr>"


definition env_prose :: env where
  "env_prose =
     \<lparr>AI = Some (\<lambda>p. Inr (JObj [(''response'', JStr ''Sorry, I cannot classify this.'')]))\<rparr>"


definition empty_world :: world where
  "empty_world = \<lparr>db = [], ai_calls = 0, clock_reads = 0\<rparr>"

definition post_feedback :: "js_error + jsval \<Rightarrow> request" where
  "post_feedback b = \<lparr>req_method = ''POST'', req_pathname = ''/feedback'', req_json = b\<rparr>"


definition empty_text_body :: jsval where
  "empty_text_body =
     JObj [(''text'', JStr []),
           (''source'', JStr ''GitHub''),
           (''timestamp'', JStr ''2026-01-01T00:00:00.000Z'')]"


text \<open>
  A table of 24 rows of one theme whose urgency scores add up to 27 and whose severity
  scores add up to 49: the exact product of coverage and means is 55.125, the product in
  doubles is a little less.
\<close>

definition tie_table :: "feedback_row list" where
  "tie_table =
     replicate 3 (sample_row ''Bug'' ''Medium'' ''Critical'' ''Negative'') @
     replicate 9 (sample_row ''Bug'' ''Low'' ''Critical'' ''Negative'') @
     [sample_row ''Bug'' ''Low'' ''Moderate'' ''Neutral''] @
     replicate 11 (sample_row ''Bug'' ''Low'' ''Minor'' ''Neutral'')"

definition tie_group :: theme_row where
  "tie_group =
     \<lparr>r_theme = JStr ''Bug'', r_coverage = 24, r_avg_urgency = 9 / 8,
      r_avg_severity = to_double (49 / 24)\<rparr>"

text \<open>The two groups of \<open>sample_table\<close>.\<close>

definition bug_group :: theme_row where
  "bug_group =
     \<lparr>r_theme = JStr ''Bug'', r_coverage = 2, r_avg_urgency = 5 / 2, r_avg_severity = 2\<rparr>"

definition other_group :: theme_row where
  "other_group =
     \<lparr>r_theme = JStr ''Other'', r_coverage = 1, r_avg_urgency = 1, r_avg_severity = 2\<rparr>"


section \<open>Rounding to a double\<close>

lemma half_even_mono: "a \<le> b \<Longrightarrow> half_even a \<le> half_even b"
proof -
  assume ab: "a \<le> b"
  then have f: "\<lfloor>a\<rfloor> \<le> \<lfloor>b\<rfloor>" by (rule floor_mono)
  show ?thesis
  proof (cases "\<lfloor>a\<rfloor> = \<lfloor>b\<rfloor>")
    case True
    with ab have "a - real_of_int \<lfloor>a\<rfloor> \<le> b - real_of_int \<lfloor>b\<rfloor>" by simp
    with True show ?thesis
      by (auto simp: half_even_def)
  next
    case False
    with f have "\<lfloor>a\<rfloor> + 1 \<le> \<lfloor>b\<rfloor>" by simp
    moreover have "half_even a \<le> \<lfloor>a\<rfloor> + 1" by (simp add: half_even_def)
    moreover have "\<lfloor>b\<rfloor> \<le> half_even b" by (simp add: half_even_def)
    ultimately show ?thesis by linarith
  qed
qed

lemma half_even_of_int [simp]: "half_even (real_of_int n) = n"
  by (simp add: half_even_def)

lemma half_even_close: "\<bar>real_of_int (half_even m) - m\<bar> \<le> 1 / 2"
  unfolding half_even_def by (auto simp: abs_le_iff)

lemma ulp_pos: "0 < ulp x"
  by (simp add: ulp_def)

lemma binade_bounds:
  assumes "x \<noteq> 0"
  shows "2 powr real_of_int (binade x) \<le> \<bar>x\<bar>" and "\<bar>x\<bar> < 2 powr (real_of_int (binade x) + 1)"
proof -
  have "0 < \<bar>x\<bar>" using assms by simp
  then have "2 powr real_of_int (binade x) \<le> \<bar>x\<bar> \<and> \<bar>x\<bar> < 2 powr (real_of_int (binade x) + 1)"
    using floor_log_eq_powr_iff [of "\<bar>x\<bar>" 2 "binade x"] by (simp add: binade_def)
  then show "2 powr real_of_int (binade x) \<le> \<bar>x\<bar>"
    and "\<bar>x\<bar> < 2 powr (real_of_int (binade x) + 1)" by simp_all
qed

lemma binade_eq:
  assumes "2 powr real_of_int e \<le> \<bar>x\<bar>" and "\<bar>x\<bar> < 2 powr (real_of_int e + 1)"
  shows "binade x = e"
proof -
  have "0 < \<bar>x\<bar>"
    using assms(1) by (smt (verit) powr_gt_zero)
  then show ?thesis
    using floor_log_eq_powr_iff [of "\<bar>x\<bar>" 2 e] assms by (simp add: binade_def)
qed

lemma binade_mono:
  assumes "0 < x" and "x \<le> y"
  shows "binade x \<le> binade y"
  unfolding binade_def using assms by (intro floor_mono) simp

text \<open>The scaled significand lies between \<open>2\<^sup>5\<^sup>2\<close> and \<open>2\<^sup>5\<^sup>3\<close>.\<close>

lemma significand_bounds:
  assumes "0 < x"
  shows "2 ^ 52 \<le> x / ulp x" and "x / ulp x < 2 ^ 53"
proof -
  have x: "x \<noteq> 0" "\<bar>x\<bar> = x" using assms by simp_all
  have lo: "2 powr real_of_int (binade x) \<le> x" and hi: "x < 2 powr (real_of_int (binade x) + 1)"
    using binade_bounds [OF x(1)] x(2) by simp_all
  have a: "2 powr real_of_int (binade x) = 2 ^ 52 * ulp x"
    by (simp add: ulp_def powr_diff)
  have b: "2 powr (real_of_int (binade x) + 1) = 2 ^ 53 * ulp x"
    by (simp add: ulp_def powr_diff powr_add)
  show "2 ^ 52 \<le> x / ulp x"
    using lo a ulp_pos [of x] by (simp add: pos_le_divide_eq)
  show "x / ulp x < 2 ^ 53"
    using hi b ulp_pos [of x] by (simp add: pos_divide_less_eq)
qed

lemma to_double_bounds:
  assumes "0 < x"
  shows "2 powr real_of_int (binade x) \<le> to_double x"
    and "to_double x \<le> 2 powr (real_of_int (binade x) + 1)"
proof -
  have "half_even (real_of_int (2 ^ 52)) \<le> half_even (x / ulp x)"
    using significand_bounds(1) [OF assms] by (intro half_even_mono) simp
  then have "real_of_int (2 ^ 52) \<le> real_of_int (half_even (x / ulp x))"
    by (simp only: half_even_of_int of_int_le_iff)
  then have lo: "2 ^ 52 \<le> real_of_int (half_even (x / ulp x))"
    by simp
  have "half_even (x / ulp x) \<le> half_even (real_of_int (2 ^ 53))"
    using significand_bounds(2) [OF assms] by (intro half_even_mono) simp
  then have "real_of_int (half_even (x / ulp x)) \<le> real_of_int (2 ^ 53)"
    by (simp only: half_even_of_int of_int_le_iff)
  then have hi: "real_of_int (half_even (x / ulp x)) \<le> 2 ^ 53"
    by simp
  have a: "2 powr real_of_int (binade x) = 2 ^ 52 * ulp x"
    by (simp add: ulp_def powr_diff)
  have b: "2 powr (real_of_int (binade x) + 1) = 2 ^ 53 * ulp x"
    by (simp add: ulp_def powr_diff powr_add)
  have d: "to_double x = real_of_int (half_even (x / ulp x)) * ulp x"
    using assms by (simp add: to_double_def)
  show "2 powr real_of_int (binade x) \<le> to_double x"
    unfolding a d using lo ulp_pos [of x] by (intro mult_right_mono) simp_all
  show "to_double x \<le> 2 powr (real_of_int (binade x) + 1)"
    unfolding b d using hi ulp_pos [of x] by (intro mult_right_mono) simp_all
qed

lemma to_double_nonneg: "0 \<le> x \<Longrightarrow> 0 \<le> to_double x"
proof (cases "x = 0")
  case True
  then show ?thesis by (simp add: to_double_def)
next
  case False
  assume "0 \<le> x"
  with False have "0 < x" by simp
  from to_double_bounds(1) [OF this] show ?thesis
    by (smt (verit) powr_gt_zero)
qed

lemma to_double_mono_nonneg:
  assumes "0 \<le> x" and "x \<le> y"
  shows "to_double x \<le> to_double y"
proof (cases "x = 0")
  case True
  with assms to_double_nonneg [of y] show ?thesis
    by (simp add: to_double_def)
next
  case False
  with assms have x: "0 < x" and y: "0 < y" by simp_all
  have e: "binade x \<le> binade y"
    using binade_mono [OF x assms(2)] .
  show ?thesis
  proof (cases "binade x = binade y")
    case True
    then have u: "ulp x = ulp y" by (simp add: ulp_def)
    have "x / ulp y \<le> y / ulp y"
      using assms(2) ulp_pos [of y] by (simp add: divide_right_mono)
    then have "half_even (x / ulp y) \<le> half_even (y / ulp y)"
      by (rule half_even_mono)
    then have "real_of_int (half_even (x / ulp y)) * ulp y \<le> real_of_int (half_even (y / ulp y)) * ulp y"
      using ulp_pos [of y] by (intro mult_right_mono) simp_all
    with x y u show ?thesis
      by (simp add: to_double_def)
  next
    case False
    with e have "real_of_int (binade x) + 1 \<le> real_of_int (binade y)" by linarith
    then have "(2::real) powr (real_of_int (binade x) + 1) \<le> 2 powr real_of_int (binade y)"
      by (intro powr_mono) simp_all
    with to_double_bounds(2) [OF x] to_double_bounds(1) [OF y] show ?thesis
      by linarith
  qed
qed

lemma to_double_error: "\<bar>to_double x - x\<bar> \<le> \<bar>x\<bar> / 2 ^ 53"
proof (cases "x = 0")
  case True
  then show ?thesis by (simp add: to_double_def)
next
  case False
  define u where "u = ulp x"
  have u: "0 < u" by (simp add: u_def ulp_pos)
  have "to_double x - x = (real_of_int (half_even (x / u)) - x / u) * u"
    using False u by (simp add: to_double_def u_def field_simps)
  then have "\<bar>to_double x - x\<bar> = \<bar>real_of_int (half_even (x / u)) - x / u\<bar> * u"
    using u by (simp add: abs_mult)
  also have "\<dots> \<le> 1 / 2 * u"
    using half_even_close [of "x / u"] u by (intro mult_right_mono) simp_all
  also have "\<dots> \<le> \<bar>x\<bar> / 2 ^ 53"
  proof -
    have "2 ^ 52 * u \<le> \<bar>x\<bar>"
      using binade_bounds(1) [OF False] by (simp add: u_def ulp_def powr_diff)
    then show ?thesis by simp
  qed
  finally show ?thesis .
qed

text \<open>Rounding a number whose binade is known.\<close>

lemma to_double_at:
  assumes "2 ^ n \<le> \<bar>x\<bar>" and "\<bar>x\<bar> < 2 * 2 ^ n"
  shows "to_double x = real_of_int (half_even (x * 2 ^ 52 / 2 ^ n)) * 2 ^ n / 2 ^ 52"
proof -
  have "binade x = int n"
    using assms by (intro binade_eq) (simp_all add: powr_realpow powr_add)
  then have u: "ulp x = 2 ^ n / 2 ^ 52"
    by (simp add: ulp_def powr_diff powr_realpow)
  have "x \<noteq> 0" using assms(1)
    by (smt (verit) zero_less_power)
  then show ?thesis
    by (simp add: to_double_def u)
qed

lemma to_double_exact:
  assumes "2 ^ n \<le> \<bar>x\<bar>" and "\<bar>x\<bar> < 2 * 2 ^ n" and "x * 2 ^ 52 / 2 ^ n \<in> \<int>"
  shows "to_double x = x"
proof -
  from assms(3) obtain k where k: "x * 2 ^ 52 / 2 ^ n = real_of_int k"
    by (auto elim: Ints_cases)
  have "to_double x = real_of_int k * 2 ^ n / 2 ^ 52"
    unfolding to_double_at [OF assms(1,2)] k by simp
  also have "\<dots> = x"
    unfolding k [symmetric] by simp
  finally show ?thesis .
qed

text \<open>Whole numbers below \<open>2\<^sup>5\<^sup>3\<close> are doubles.\<close>

lemma to_double_of_nat:
  assumes "n < 2 ^ 53"
  shows "to_double (real n) = real n"
proof (cases "n = 0")
  case True
  then show ?thesis by (simp add: to_double_def)
next
  case False
  define x where "x = real n"
  have x1: "1 \<le> x" and x53: "x < 2 ^ 53"
    using False assms by (simp_all add: x_def)
  have e0: "0 \<le> binade x"
    using x1 by (simp add: binade_def)
  have "log 2 \<bar>x\<bar> < 53"
    using x1 x53 by (simp add: log_less_iff powr_realpow)
  then have e52: "binade x \<le> 52"
    by (simp add: binade_def floor_le_iff)
  define k where "k = nat (52 - binade x)"
  have "real_of_int (binade x) - 52 = - real k"
    using e52 by (simp add: k_def)
  then have u: "ulp x = 1 / 2 ^ k"
    by (simp add: ulp_def powr_minus powr_realpow divide_inverse)
  have m: "x / ulp x = real_of_int (int n * 2 ^ k)"
    unfolding u by (simp add: x_def)
  have "to_double x = real_of_int (half_even (x / ulp x)) * ulp x"
    using x1 by (simp add: to_double_def)
  also have "\<dots> = real_of_int (int n * 2 ^ k) * ulp x"
    unfolding m by (simp only: half_even_of_int)
  also have "\<dots> = x"
    unfolding u by (simp add: x_def)
  finally show ?thesis by (simp add: x_def)
qed

lemma toFixed2_nonneg: "0 \<le> x \<Longrightarrow> toFixed2 x = real_of_int \<lfloor>x * 100 + 1 / 2\<rfloor> / 100"
  by (cases "x = 0") (simp_all add: toFixed2_def)

lemma toFixed2_nonneg_ge: "0 \<le> x \<Longrightarrow> 0 \<le> toFixed2 x"
  by (simp add: toFixed2_nonneg)

lemma toFixed2_mono_nonneg:
  assumes "0 \<le> x" and "x \<le> y"
  shows "toFixed2 x \<le> toFixed2 y"
proof -
  have "\<lfloor>x * 100 + 1 / 2\<rfloor> \<le> \<lfloor>y * 100 + 1 / 2\<rfloor>"
    using assms by (intro floor_mono) simp
  then have "real_of_int \<lfloor>x * 100 + 1 / 2\<rfloor> / 100 \<le> real_of_int \<lfloor>y * 100 + 1 / 2\<rfloor> / 100"
    by (simp add: divide_right_mono)
  with assms show ?thesis
    by (simp add: toFixed2_nonneg)
qed

lemma toFixed2_hundredths: "\<exists>n::int. toFixed2 x = real_of_int n / 100"
proof -
  have "toFixed2 x =
      real_of_int ((if x < 0 then - 1 else if x = 0 then 0 else 1) * \<lfloor>\<bar>x\<bar> * 100 + 1 / 2\<rfloor>) / 100"
    by (simp add: toFixed2_def sgn_if)
  then show ?thesis by blast
qed

lemma toFixed2_close: "\<bar>toFixed2 x - x\<bar> \<le> 1 / 200"
proof -
  define a where "a = \<bar>x\<bar>"
  define n where "n = real_of_int \<lfloor>a * 100 + 1 / 2\<rfloor>"
  have lo: "n \<le> a * 100 + 1 / 2" unfolding n_def by linarith
  have hi: "a * 100 + 1 / 2 < n + 1" unfolding n_def by linarith
  have near: "\<bar>n / 100 - a\<bar> \<le> 1 / 200"
    using lo hi by linarith
  have "toFixed2 x = sgn x * (n / 100)" and "x = sgn x * a"
    by (simp_all add: toFixed2_def n_def a_def sgn_if)
  then have "toFixed2 x - x = sgn x * (n / 100 - a)"
    by (metis right_diff_distrib)
  then have "\<bar>toFixed2 x - x\<bar> = \<bar>sgn x\<bar> * \<bar>n / 100 - a\<bar>"
    by (simp add: abs_mult)
  also have "\<dots> \<le> 1 * \<bar>n / 100 - a\<bar>"
    by (intro mult_right_mono) (simp_all add: sgn_if)
  finally show ?thesis using near by simp
qed

lemma Number_toFixed2_mono_nonneg:
  assumes "0 \<le> x" and "x \<le> y"
  shows "Number_toFixed2 x \<le> Number_toFixed2 y"
  unfolding Number_toFixed2_def
  using assms by (intro to_double_mono_nonneg toFixed2_mono_nonneg toFixed2_nonneg_ge)

lemma fmul_nonneg: "0 \<le> a \<Longrightarrow> 0 \<le> b \<Longrightarrow> 0 \<le> fmul a b"
  unfolding fmul_def by (intro to_double_nonneg) simp

lemma fmul_mono_nonneg:
  assumes "0 \<le> a" and "0 \<le> b" and "a \<le> a'" and "b \<le> b'"
  shows "fmul a b \<le> fmul a' b'"
  unfolding fmul_def
  using assms by (intro to_double_mono_nonneg mult_mono) simp_all

section \<open>Sorting and grouping\<close>


lemma mset_insert_by: "mset (insert_by cmp x ys) = add_mset x (mset ys)"
  by (induction ys) auto

lemma mset_sort_by: "mset (sort_by cmp xs) = mset xs"
  unfolding sort_by_def by (induction xs) (simp_all add: mset_insert_by)

lemma set_sort_by: "set (sort_by cmp xs) = set xs"
  using mset_sort_by [of cmp xs] by (metis set_mset_mset)




lemma set_insert_key: "set (insert_key k xs) = insert k (set xs)"
  by (induction xs) auto

lemma distinct_insert_key: "distinct xs \<Longrightarrow> k \<notin> set xs \<Longrightarrow> distinct (insert_key k xs)"
  by (induction xs) (auto simp: set_insert_key)

lemma set_group_keys: "set (group_keys vs) = set vs"
  unfolding group_keys_def by (induction vs) (auto simp: set_insert_key)

lemma distinct_group_keys: "distinct (group_keys vs)"
  unfolding group_keys_def by (induction vs) (simp_all add: distinct_insert_key)

lemma group_keys_one_value:
  assumes "vs \<noteq> []" and "\<forall>x\<in>set vs. x = v"
  shows "group_keys vs = [v]"
proof -
  from assms have "set vs = {v}"
    by (cases vs) auto
  then have s: "set (group_keys vs) = {v}"
    by (simp add: set_group_keys)
  have d: "distinct (group_keys vs)"
    by (rule distinct_group_keys)
  show ?thesis
  proof (cases "group_keys vs")
    case Nil
    with s show ?thesis by simp
  next
    case (Cons a rest)
    with s have a: "a = v" and r: "set rest \<subseteq> {v}"
      by auto
    from d Cons a have "v \<notin> set rest"
      by simp
    with r have "rest = []"
      by (cases rest) auto
    with Cons a show ?thesis by simp
  qed
qed

section \<open>The clusters endpoint\<close>

lemma cluster_of_simps:
  "theme (cluster_of r) = r_theme r"
  "coverage (cluster_of r) = r_coverage r"
  "avg_urgency (cluster_of r) = Number_toFixed2 (r_avg_urgency r)"
  "avg_severity (cluster_of r) = Number_toFixed2 (r_avg_severity r)"
  "priority (cluster_of r) =
     Number_toFixed2 (fmul (fmul (r_coverage r) (r_avg_urgency r)) (r_avg_severity r))"
  by (simp_all add: cluster_of_def Let_def split: prod.splits)

lemma cluster_of_insight:
  "(insight (cluster_of r), recommendation (cluster_of r)) =
     (if r_theme r = JStr ''Other'' then
        (''Large volume of uncategorized feedback suggests taxonomy gaps.'',
         ''Refine AI classification prompts or expand feedback categories.'')
      else if fmul (fmul (r_coverage r) (r_avg_urgency r)) (r_avg_severity r) > 20 then
        (''High-impact issue affecting multiple users.'',
         ''Prioritize investigation and remediation.'')
      else
        (''Recurring user feedback detected.'',
         ''Monitor and review in upcoming sprint.''))"
  by (simp add: cluster_of_def Let_def split: prod.splits)

lemma group_row_simps:
  "r_theme (group_row table t) = js_of_sql t"
  "r_coverage (group_row table t) =
     to_double (real (length (filter (\<lambda>x. fb_theme x = t) table)))"
  "r_avg_urgency (group_row table t) =
     fdiv (to_double (real (\<Sum>x\<leftarrow>filter (\<lambda>x. fb_theme x = t) table. urgency_score (fb_urgency x))))
       (to_double (real (length (filter (\<lambda>x. fb_theme x = t) table))))"
  "r_avg_severity (group_row table t) =
     fdiv (to_double (real (\<Sum>x\<leftarrow>filter (\<lambda>x. fb_theme x = t) table. severity_score (fb_severity x))))
       (to_double (real (length (filter (\<lambda>x. fb_theme x = t) table))))"
  by (simp_all add: group_row_def Let_def)




text \<open>Doubles that the examples meet.\<close>

lemma to_double_numeral:
  "(numeral k :: nat) < 2 ^ 53 \<Longrightarrow> to_double (numeral k) = numeral k"
  using to_double_of_nat [of "numeral k"] by simp

lemma to_double_one: "to_double 1 = 1"
  using to_double_of_nat [of 1] by simp

lemma to_double_5_2: "to_double (5 / 2) = 5 / 2"
  by (rule to_double_exact [where n = 1]) simp_all

lemma to_double_9_8: "to_double (9 / 8) = 9 / 8"
  by (rule to_double_exact [where n = 0]) simp_all

lemma to_double_49_24: "to_double (49 / 24) = 4597424619607381 / 2251799813685248"
  by (subst to_double_at [where n = 1]) (simp_all add: half_even_def)

lemma tie_product:
  "fmul 27 (4597424619607381 / 2251799813685248) = 7758154045587455 / 140737488355328"
  unfolding fmul_def by (subst to_double_at [where n = 5]) (simp_all add: half_even_def)

lemma sample_clusters_query: "clusters_query sample_table = [bug_group, other_group]"
  by (simp add: clusters_query_def sample_table_def sample_row_def group_row_def group_keys_def
      urgency_score_def severity_score_def bug_group_def other_group_def fdiv_def
      to_double_numeral to_double_one to_double_5_2)

lemma sample_priorities:
  "priority (cluster_of bug_group) = 10" "priority (cluster_of other_group) = 2"
  "priority (cluster_of other_row) = 27" "priority (cluster_of busy_row) = 24"
  "priority (cluster_of quiet_row) = 9"
  by (simp_all add: cluster_of_simps bug_group_def other_group_def other_row_def busy_row_def
      quiet_row_def fmul_def Number_toFixed2_def toFixed2_def to_double_numeral to_double_one)

lemma sample_clusters_of:
  "clusters_of [quiet_row, other_row, busy_row] =
     [cluster_of other_row, cluster_of busy_row, cluster_of quiet_row]"
  by (simp add: clusters_of_def sort_by_def by_priority_def sample_priorities)

lemma sample_table_clusters:
  "clusters_of (clusters_query sample_table) = [cluster_of bug_group, cluster_of other_group]"
  by (simp add: sample_clusters_query clusters_of_def sort_by_def by_priority_def
      sample_priorities)

lemma tie_clusters_query: "clusters_query tie_table = [tie_group]"
proof -
  have k: "group_keys (map fb_theme tie_table) = [SText ''Bug'']"
    by (rule group_keys_one_value) (auto simp: tie_table_def sample_row_def)
  have f: "filter (\<lambda>x. fb_theme x = SText ''Bug'') tie_table = tie_table"
    by (simp add: tie_table_def sample_row_def)
  have n: "length tie_table = 24"
    by (simp add: tie_table_def)
  have u: "(\<Sum>x\<leftarrow>tie_table. urgency_score (fb_urgency x)) = 27"
    by (simp add: tie_table_def sample_row_def urgency_score_def sum_list_replicate)
  have s: "(\<Sum>x\<leftarrow>tie_table. severity_score (fb_severity x)) = 49"
    by (simp add: tie_table_def sample_row_def severity_score_def sum_list_replicate)
  have "fdiv 27 24 = 9 / 8"
    using to_double_9_8 by (simp add: fdiv_def)
  then show ?thesis
    by (simp add: clusters_query_def k group_row_def f n u s tie_group_def fdiv_def
        to_double_numeral)
qed

lemma urgency_sum_bound: "(\<Sum>x\<leftarrow>g. urgency_score (fb_urgency x)) \<le> 3 * length g"
  by (induction g) (auto simp: urgency_score_def)

lemma severity_sum_bound: "(\<Sum>x\<leftarrow>g. severity_score (fb_severity x)) \<le> 3 * length g"
  by (induction g) (auto simp: severity_score_def)

lemma small_mean:
  assumes "length g < 2 ^ 51" and "s \<le> 3 * length g"
  shows "fdiv (to_double (real s)) (to_double (real (length g))) =
           to_double (real s / real (length g))"
proof -
  have "length g < 2 ^ 53" and "s < 2 ^ 53"
    using assms by simp_all
  then show ?thesis
    by (simp add: fdiv_def to_double_of_nat)
qed

text \<open>
  Claim C1. Every row the grouped query returns belongs to a theme \<open>t\<close> of the table; with
  \<open>g\<close> the table's rows of that theme, its coverage is the number of rows in \<open>g\<close>, its
  avg_urgency is the mean over \<open>g\<close> of High = 3, Medium = 2, anything else = 1, and its
  avg_severity the mean over \<open>g\<close> of Critical = 3, Moderate = 2, anything else = 1, each
  mean being the sum divided by the count in doubles (for fewer than \<open>2\<^sup>5\<^sup>1\<close> rows: the
  count itself, and the double nearest to the exact mean). The cluster built from the
  row, which is one of the clusters of the answer, has priority = coverage \<times> avg_urgency
  \<times> avg_severity, the two multiplications of the program in doubles with nothing divided
  out and nothing capped, and shows priority, avg_urgency and avg_severity rounded to two
  decimals: the double that reads as a whole number of hundredths at most half a
  hundredth from the value. A double operation is the exact one up to a relative error
  of \<open>2\<^sup>-\<^sup>5\<^sup>3\<close>.
\<close>

theorem cluster_priority_formula:
  assumes "r \<in> set (clusters_query table)"
  shows "\<exists>t g su sv.
           t \<in> fb_theme ` set table \<and> g = filter (\<lambda>x. fb_theme x = t) table \<and> g \<noteq> [] \<and>
           su = (\<Sum>x\<leftarrow>g. if fb_urgency x = SText ''High'' then 3
                      else if fb_urgency x = SText ''Medium'' then 2 else (1::nat)) \<and>
           sv = (\<Sum>x\<leftarrow>g. if fb_severity x = SText ''Critical'' then 3
                      else if fb_severity x = SText ''Moderate'' then 2 else (1::nat)) \<and>
           r_theme r = js_of_sql t \<and>
           r_coverage r = to_double (real (length g)) \<and>
           r_avg_urgency r = fdiv (to_double (real su)) (to_double (real (length g))) \<and>
           r_avg_severity r = fdiv (to_double (real sv)) (to_double (real (length g))) \<and>
           (length g < 2 ^ 51 \<longrightarrow>
              r_coverage r = real (length g) \<and>
              r_avg_urgency r = to_double (real su / real (length g)) \<and>
              r_avg_severity r = to_double (real sv / real (length g))) \<and>
           priority (cluster_of r) =
             Number_toFixed2 (fmul (fmul (r_coverage r) (r_avg_urgency r)) (r_avg_severity r)) \<and>
           avg_urgency (cluster_of r) = Number_toFixed2 (r_avg_urgency r) \<and>
           avg_severity (cluster_of r) = Number_toFixed2 (r_avg_severity r) \<and>
           cluster_of r \<in> set (clusters_of (clusters_query table)) \<and>
           (\<forall>x y. fmul x y = to_double (x * y) \<and> fdiv x y = to_double (x / y) \<and>
                  Number_toFixed2 x = to_double (toFixed2 x)) \<and>
           (\<forall>x. \<bar>to_double x - x\<bar> \<le> \<bar>x\<bar> / 2 ^ 53) \<and>
           (\<forall>x. (\<exists>n::int. toFixed2 x = real_of_int n / 100) \<and> \<bar>toFixed2 x - x\<bar> \<le> 1 / 200)"
proof -
  from assms obtain t where t: "t \<in> fb_theme ` set table" and r: "r = group_row table t"
    by (auto simp: clusters_query_def set_group_keys)
  define g where "g = filter (\<lambda>x. fb_theme x = t) table"
  define su where "su = (\<Sum>x\<leftarrow>g. if fb_urgency x = SText ''High'' then 3
                      else if fb_urgency x = SText ''Medium'' then 2 else (1::nat))"
  define sv where "sv = (\<Sum>x\<leftarrow>g. if fb_severity x = SText ''Critical'' then 3
                      else if fb_severity x = SText ''Moderate'' then 2 else (1::nat))"
  from t have ne: "g \<noteq> []"
    by (auto simp: g_def filter_empty_conv)
  have u: "su = (\<Sum>x\<leftarrow>g. urgency_score (fb_urgency x))"
    by (simp add: su_def urgency_score_def)
  have s: "sv = (\<Sum>x\<leftarrow>g. severity_score (fb_severity x))"
    by (simp add: sv_def severity_score_def)
  have rows: "r_theme r = js_of_sql t" "r_coverage r = to_double (real (length g))"
    "r_avg_urgency r = fdiv (to_double (real su)) (to_double (real (length g)))"
    "r_avg_severity r = fdiv (to_double (real sv)) (to_double (real (length g)))"
    unfolding r g_def group_row_simps u s by simp_all
  have small: "r_coverage r = real (length g) \<and>
      r_avg_urgency r = to_double (real su / real (length g)) \<and>
      r_avg_severity r = to_double (real sv / real (length g))" if "length g < 2 ^ 51"
  proof -
    from that have "length g < 2 ^ 53" by simp
    then have "to_double (real (length g)) = real (length g)"
      by (rule to_double_of_nat)
    moreover have "su \<le> 3 * length g" and "sv \<le> 3 * length g"
      unfolding u s by (rule urgency_sum_bound, rule severity_sum_bound)
    ultimately show ?thesis
      using rows small_mean [OF that] by metis
  qed
  have out: "cluster_of r \<in> set (clusters_of (clusters_query table))"
    using assms by (simp add: clusters_of_def set_sort_by)
  have ops: "\<forall>x y. fmul x y = to_double (x * y) \<and> fdiv x y = to_double (x / y) \<and>
                  Number_toFixed2 x = to_double (toFixed2 x)"
    by (simp add: fmul_def fdiv_def Number_toFixed2_def)
  have err: "\<forall>x. \<bar>to_double x - x\<bar> \<le> \<bar>x\<bar> / 2 ^ 53"
    using to_double_error by blast
  have round: "\<forall>x. (\<exists>n::int. toFixed2 x = real_of_int n / 100) \<and> \<bar>toFixed2 x - x\<bar> \<le> 1 / 200"
    using toFixed2_hundredths toFixed2_close by blast
  have g: "g = filter (\<lambda>x. fb_theme x = t) table"
    by (rule g_def)
  have su: "su = (\<Sum>x\<leftarrow>g. if fb_urgency x = SText ''High'' then 3
                      else if fb_urgency x = SText ''Medium'' then 2 else (1::nat))"
    by (rule su_def)
  have sv: "sv = (\<Sum>x\<leftarrow>g. if fb_severity x = SText ''Critical'' then 3
                      else if fb_severity x = SText ''Moderate'' then 2 else (1::nat))"
    by (rule sv_def)
  show ?thesis
    using t g ne su sv rows small out ops err round cluster_of_simps(3,4,5) [of r]
    by blast
qed

theorem cluster_priority_formula_witness:
  "tie_group \<in> set (clusters_query tie_table) \<and>
   r_coverage tie_group = 24 \<and> r_avg_urgency tie_group = 9 / 8 \<and>
   r_avg_severity tie_group = to_double (49 / 24) \<and>
   priority (cluster_of tie_group) = to_double (5512 / 100) \<and>
   avg_urgency (cluster_of tie_group) = to_double (113 / 100) \<and>
   toFixed2 (24 * (27 / 24) * (49 / 24)) = 5513 / 100"
proof -
  have m: "tie_group \<in> set (clusters_query tie_table)"
    by (simp add: tie_clusters_query)
  have f: "fmul (fmul 24 (9 / 8)) (to_double (49 / 24)) = 7758154045587455 / 140737488355328"
    using tie_product by (simp add: fmul_def [of 24] to_double_numeral to_double_49_24)
  from cluster_priority_formula [OF m]
  have "priority (cluster_of tie_group) =
      Number_toFixed2 (fmul (fmul (r_coverage tie_group) (r_avg_urgency tie_group))
        (r_avg_severity tie_group))"
    and "avg_urgency (cluster_of tie_group) = Number_toFixed2 (r_avg_urgency tie_group)"
    by blast+
  then have "priority (cluster_of tie_group) = to_double (5512 / 100)"
    and "avg_urgency (cluster_of tie_group) = to_double (113 / 100)"
    by (simp_all add: tie_group_def f Number_toFixed2_def toFixed2_def)
  with m show ?thesis
    by (simp add: tie_group_def toFixed2_def)
qed

text \<open>
  Claim C6. Every cluster of the answer comes from a row of the query, and its insight
  and recommendation follow the first rule that matches: theme "Other" takes the
  taxonomy-gap pair whatever the priority; otherwise a priority (the product the program
  computes, before rounding to two decimals) above 20 takes the high-impact pair;
  otherwise the default pair.
\<close>

theorem insight_first_matching_rule:
  assumes "c \<in> set (clusters_of results)"
  shows "\<exists>r\<in>set results. c = cluster_of r \<and> theme c = r_theme r \<and>
           (insight c, recommendation c) =
             (if theme c = JStr ''Other'' then
                (''Large volume of uncategorized feedback suggests taxonomy gaps.'',
                 ''Refine AI classification prompts or expand feedback categories.'')
              else if fmul (fmul (r_coverage r) (r_avg_urgency r)) (r_avg_severity r) > 20 then
                (''High-impact issue affecting multiple users.'',
                 ''Prioritize investigation and remediation.'')
              else
                (''Recurring user feedback detected.'',
                 ''Monitor and review in upcoming sprint.''))"
proof -
  from assms obtain r where r: "r \<in> set results" and c: "c = cluster_of r"
    by (auto simp: clusters_of_def set_sort_by)
  have "theme c = r_theme r"
    by (simp add: c cluster_of_simps)
  with r c cluster_of_insight [of r] show ?thesis
    by auto
qed

theorem insight_first_matching_rule_witness:
  "cluster_of other_row \<in> set (clusters_of [quiet_row, other_row, busy_row]) \<and>
   priority (cluster_of other_row) = 27 \<and>
   insight (cluster_of other_row) =
     ''Large volume of uncategorized feedback suggests taxonomy gaps.'' \<and>
   recommendation (cluster_of other_row) =
     ''Refine AI classification prompts or expand feedback categories.''"
proof -
  have m: "cluster_of other_row \<in> set (clusters_of [quiet_row, other_row, busy_row])"
    by (simp add: sample_clusters_of)
  have th: "theme (cluster_of other_row) = JStr ''Other''"
    by (simp add: cluster_of_simps other_row_def)
  from insight_first_matching_rule [OF m] have
    "(insight (cluster_of other_row), recommendation (cluster_of other_row)) =
       (''Large volume of uncategorized feedback suggests taxonomy gaps.'',
        ''Refine AI classification prompts or expand feedback categories.'')"
    unfolding th by auto
  then show ?thesis
    using m sample_priorities(3) by simp
qed


lemma sample_clusters_answer:
  "fetch example_runtime env_unavailable
     \<lparr>req_method = ''GET'', req_pathname = ''/clusters'', req_json = Inl SyntaxError\<rparr>
     \<lparr>db = sample_table, ai_calls = 0, clock_reads = 0\<rparr> =
     (Inr (json (JObj [(''top_problem'', cluster_json (cluster_of bug_group)),
                       (''clusters'', JArr [cluster_json (cluster_of bug_group),
                                            cluster_json (cluster_of other_group)])]) 200),
      \<lparr>db = sample_table, ai_calls = 0, clock_reads = 0\<rparr>)"
  by (simp add: fetch_def clusters_handler_def clusters_response_def top_problem_def
      sample_table_clusters)


text \<open>
  Claim C9. With non-negative factors, raising coverage, avg_urgency or avg_severity
  (one of them with the other two fixed, or several at once) never lowers the priority
  the cluster shows.
\<close>

theorem priority_monotone:
  assumes "0 \<le> c" and "0 \<le> u" and "0 \<le> s" and "c \<le> c'" and "u \<le> u'" and "s \<le> s'"
  shows "priority (cluster_of
           \<lparr>r_theme = t, r_coverage = c, r_avg_urgency = u, r_avg_severity = s\<rparr>)
       \<le> priority (cluster_of
           \<lparr>r_theme = t, r_coverage = c', r_avg_urgency = u', r_avg_severity = s'\<rparr>)"
proof -
  have cu: "fmul c u \<le> fmul c' u'" and cu0: "0 \<le> fmul c u"
    using assms by (simp_all add: fmul_mono_nonneg fmul_nonneg)
  then have "fmul (fmul c u) s \<le> fmul (fmul c' u') s'" and "0 \<le> fmul (fmul c u) s"
    using assms by (simp_all add: fmul_mono_nonneg fmul_nonneg)
  then show ?thesis
    by (simp add: cluster_of_simps Number_toFixed2_mono_nonneg)
qed

theorem priority_monotone_witness:
  "(0::real) \<le> 1 \<and> (1::real) \<le> 2 \<and>
   priority (cluster_of
     \<lparr>r_theme = JStr ''Bug'', r_coverage = 1, r_avg_urgency = 2, r_avg_severity = 3\<rparr>) = 6 \<and>
   priority (cluster_of
     \<lparr>r_theme = JStr ''Bug'', r_coverage = 2, r_avg_urgency = 2, r_avg_severity = 3\<rparr>) = 12 \<and>
   priority (cluster_of
     \<lparr>r_theme = JStr ''Bug'', r_coverage = 1, r_avg_urgency = 2, r_avg_severity = 3\<rparr>)
     \<le> priority (cluster_of
     \<lparr>r_theme = JStr ''Bug'', r_coverage = 2, r_avg_urgency = 2, r_avg_severity = 3\<rparr>)"
  using priority_monotone [of 1 2 3 2 2 3 "JStr ''Bug''"]
  by (simp add: cluster_of_simps fmul_def Number_toFixed2_def toFixed2_def to_double_numeral)

section \<open>The stats endpoint\<close>

text \<open>
  Claim C8. For every aggregate row the summary is picked by the first rule that
  matches: negative > total / 2 gives the trending-negative sentence; otherwise
  high_urgency > 0 or critical > 0 gives the urgent-issues sentence; otherwise the
  low-risk sentence. The comparisons read a count as its number and a null count as 0.
  The answer carries the four values and that summary, and GET /stats gives the answer
  for the aggregate row of the table.
\<close>

theorem summary_first_matching_rule:
  "summary_of \<lparr>total = t, high_urgency = h, critical = c, negative = n\<rparr> =
     (if num_of n > t / 2 then ''User sentiment is trending negative.''
      else if num_of h > 0 \<or> num_of c > 0 then
        ''Urgent issues detected that may require prioritization.''
      else ''Feedback volume is low risk.'') \<and>
   (\<forall>x. num_of (Some x) = x) \<and> num_of None = 0 \<and>
   stats_response \<lparr>total = t, high_urgency = h, critical = c, negative = n\<rparr> =
     json (JObj [(''total'', JNum t),
                 (''high_urgency'', nullable_json h),
                 (''critical'', nullable_json c),
                 (''negative'', nullable_json n),
                 (''summary'',
                  JStr (summary_of
                    \<lparr>total = t, high_urgency = h, critical = c, negative = n\<rparr>))])
       200 \<and>
   fetch rt ev \<lparr>req_method = ''GET'', req_pathname = ''/stats'', req_json = j\<rparr> w =
     (Inr (stats_response (stats_query (db w))), w)"
  by (simp add: summary_of_def num_of_def stats_response_def fetch_def stats_handler_def)

theorem summary_first_matching_rule_witness:
  "summary_of \<lparr>total = 4, high_urgency = Some 1, critical = Some 0, negative = Some 3\<rparr> =
     ''User sentiment is trending negative.'' \<and>
   summary_of \<lparr>total = 4, high_urgency = Some 1, critical = Some 0, negative = Some 2\<rparr> =
     ''Urgent issues detected that may require prioritization.'' \<and>
   summary_of \<lparr>total = 4, high_urgency = Some 0, critical = Some 0, negative = Some 2\<rparr> =
     ''Feedback volume is low risk.''"
  using summary_first_matching_rule [of 4 "Some 1" "Some 0" "Some 3"]
        summary_first_matching_rule [of 4 "Some 1" "Some 0" "Some 2"]
        summary_first_matching_rule [of 4 "Some 0" "Some 0" "Some 2"]
  by simp

text \<open>
  Claim C3, at its failing input. On a table with no rows GET /stats answers without a
  fault and with the low-risk summary, and total is 0; but high_urgency, critical and
  negative are null, not 0: each is a \<^verbatim>\<open>SUM\<close> over no rows.
\<close>

theorem stats_on_empty_store:
  "fetch rt ev \<lparr>req_method = ''GET'', req_pathname = ''/stats'', req_json = j\<rparr>
     \<lparr>db = [], ai_calls = a, clock_reads = k\<rparr> =
     (Inr (json (JObj [(''total'', JNum 0),
                       (''high_urgency'', JNull),
                       (''critical'', JNull),
                       (''negative'', JNull),
                       (''summary'', JStr ''Feedback volume is low risk.'')]) 200),
      \<lparr>db = [], ai_calls = a, clock_reads = k\<rparr>)"
  by (simp add: fetch_def stats_handler_def stats_response_def stats_query_def sum_case_def
      summary_of_def num_of_def nullable_json_def)

section \<open>When the classifier adapter raises\<close>












section \<open>The ingestion endpoint\<close>

lemma js_prop_or_empty: "js_prop (if truthy p then p else JObj []) k = js_prop p k"
  by (cases p) simp_all

text \<open>
  Claim C5. A POST /feedback whose body parses, with text, source or timestamp missing
  or falsy (a body that is not an object has none of them), is answered with status 400
  and an error body; the world is as before: no row is inserted and the classification
  capability is not called.
\<close>

theorem feedback_missing_field_rejected:
  assumes "req_method req = ''POST''" and "req_pathname req = ''/feedback''"
    and "req_json req = Inr parsed"
    and "\<not> truthy (js_prop parsed ''text'') \<or> \<not> truthy (js_prop parsed ''source'')
         \<or> \<not> truthy (js_prop parsed ''timestamp'')"
  shows "fetch rt ev req w =
           (Inr (json (JObj [(''error'', JStr ''text, source, timestamp required'')]) 400), w) \<and>
         status (json (JObj [(''error'', JStr ''text, source, timestamp required'')]) 400) = 400 \<and>
         db (snd (fetch rt ev req w)) = db w \<and>
         ai_calls (snd (fetch rt ev req w)) = ai_calls w"
proof -
  have "fetch rt ev req w = feedback_handler rt ev req w"
    using assms(1,2) by (simp add: fetch_def)
  also have "\<dots> =
      (Inr (json (JObj [(''error'', JStr ''text, source, timestamp required'')]) 400), w)"
    using assms(3,4) by (auto simp: feedback_handler_def Let_def js_prop_or_empty)
  finally show ?thesis
    by (simp add: json_def)
qed

theorem feedback_missing_field_rejected_witness:
  "\<not> truthy (js_prop empty_text_body ''text'') \<and>
   fetch example_runtime env_prose (post_feedback (Inr empty_text_body)) empty_world =
     (Inr (json (JObj [(''error'', JStr ''text, source, timestamp required'')]) 400),
      empty_world) \<and>
   fetch example_runtime env_prose (post_feedback (Inr JNull)) empty_world =
     (Inr (json (JObj [(''error'', JStr ''text, source, timestamp required'')]) 400),
      empty_world)"
  using feedback_missing_field_rejected [of "post_feedback (Inr empty_text_body)" empty_text_body example_runtime env_prose
      empty_world]
    feedback_missing_field_rejected [of "post_feedback (Inr JNull)" JNull example_runtime env_prose empty_world]
  by (simp add: post_feedback_def empty_text_body_def)

text \<open>
  Claim C10. A POST /feedback whose body is not JSON: the exception of
  \<^verbatim>\<open>request.json()\<close> leaves the fetch handler as it is. No response is returned, so no
  400, and the world is as before.
\<close>

theorem feedback_bad_json_propagates:
  assumes "req_method req = ''POST''" and "req_pathname req = ''/feedback''"
    and "req_json req = Inl e"
  shows "fetch rt ev req w = (Inl e, w) \<and> (\<forall>resp. fst (fetch rt ev req w) \<noteq> Inr resp)"
  using assms by (simp add: fetch_def feedback_handler_def)

theorem feedback_bad_json_propagates_witness:
  "fetch example_runtime env_prose (post_feedback (Inl SyntaxError)) empty_world =
     (Inl SyntaxError, empty_world)"
  using feedback_bad_json_propagates [of "post_feedback (Inl SyntaxError)" SyntaxError example_runtime env_prose empty_world]
  by (simp add: post_feedback_def)

section \<open>What the stored rows hold\<close>


















end
